theory Spec2Isabelle
  imports Complex_Main
begin

section \<open>PrecisionFighterGame: the entity, collision, AI, timer and frame loop of main.js\<close>

text \<open>
  The theory embeds \<^verbatim>\<open>src/main.js\<close>. JavaScript numbers are modelled as exact rationals
  (every constant of the program is rational); the facing direction, which the program only
  ever sets to \<open>1\<close> or \<open>-1\<close>, and the countdown are integers. Mutation of the two sprites and
  of the script's global variables is explicit state passing. Drawing on the canvas context
  reads the sprite and writes only to the canvas, so it does not appear in the state. The
  browser's part, the clock and the callbacks registered with \<open>setTimeout\<close>, is a table of
  pending callbacks in the state; what the script is handed from outside (frames, key events,
  the passing of time, the value of \<open>Math.random()\<close>) is an event.
\<close>

subsection \<open>Game constants (main.js, lines 9 to 18)\<close>

definition GRAVITY :: rat where
  "GRAVITY = 7 / 10"

definition TERMINAL_VELOCITY :: rat where
  "TERMINAL_VELOCITY = 15"

definition GAME_WIDTH :: rat where
  "GAME_WIDTH = 1024"

definition GAME_HEIGHT :: rat where
  "GAME_HEIGHT = 576"

definition GROUND_HEIGHT :: rat where
  "GROUND_HEIGHT = 96"

definition canvas_width :: rat where
  "canvas_width = GAME_WIDTH"

definition canvas_height :: rat where
  "canvas_height = GAME_HEIGHT"

subsection \<open>class Sprite (lines 34 to 129)\<close>

record Vec =
  vec_x :: rat
  vec_y :: rat

record AttackBox =
  box_position :: Vec
  box_offset :: Vec
  box_width :: rat
  box_height :: rat

text \<open>\<open>isJumping\<close> is not set by the constructor (it is \<open>undefined\<close>, here \<open>None\<close>) and is
  assigned \<open>false\<close> by \<open>update\<close> on ground contact.\<close>

record Sprite =
  position :: Vec
  velocity :: Vec
  width :: rat
  height :: rat
  lastKey :: string
  attackBox :: AttackBox
  color :: string
  isAttacking :: bool
  health :: rat
  isDead :: bool
  direction :: int
  isJumping :: "bool option"

text \<open>The constructor, lines 35 to 57. The attack box gets a fresh position object holding
  the coordinates of \<open>position\<close>.\<close>

definition newSprite :: "Vec \<Rightarrow> Vec \<Rightarrow> string \<Rightarrow> Vec \<Rightarrow> Sprite" where
  "newSprite pos vel col off =
     \<lparr> position = pos,
       velocity = vel,
       width = 50,
       height = 150,
       lastKey = '''',
       attackBox = \<lparr> box_position = \<lparr> vec_x = vec_x pos, vec_y = vec_y pos \<rparr>,
                     box_offset = off,
                     box_width = 100,
                     box_height = 50 \<rparr>,
       color = col,
       isAttacking = False,
       health = 100,
       isDead = False,
       direction = 1,
       isJumping = None \<rparr>"

text \<open>\<open>update\<close>, lines 81 to 112, block by block in the order of the source. Lines 86 to 94:
  the attack box follows the character.\<close>

definition update_attackBox :: "Sprite \<Rightarrow> Sprite" where
  "update_attackBox e =
     (let bx = (if direction e = 1
                then vec_x (position e) + vec_x (box_offset (attackBox e))
                else vec_x (position e) - box_width (attackBox e) + width e
                       - vec_x (box_offset (attackBox e)));
          by = vec_y (position e) + vec_y (box_offset (attackBox e))
      in e\<lparr>attackBox := (attackBox e)\<lparr>box_position := \<lparr> vec_x = bx, vec_y = by \<rparr>\<rparr>\<rparr>)"

text \<open>Lines 96 to 98: the velocity is added to the position.\<close>

definition update_position :: "Sprite \<Rightarrow> Sprite" where
  "update_position e =
     e\<lparr>position := \<lparr> vec_x = vec_x (position e) + vec_x (velocity e),
                      vec_y = vec_y (position e) + vec_y (velocity e) \<rparr>\<rparr>"

text \<open>Lines 100 to 107: ground contact or gravity. The test reads the position already
  moved by line 98 and adds the velocity once more.\<close>

definition update_gravity :: "Sprite \<Rightarrow> Sprite" where
  "update_gravity e =
     (if vec_y (position e) + height e + vec_y (velocity e) \<ge> canvas_height - GROUND_HEIGHT
      then e\<lparr>velocity := (velocity e)\<lparr>vec_y := 0\<rparr>,
              position := (position e)\<lparr>vec_y := canvas_height - height e - GROUND_HEIGHT\<rparr>,
              isJumping := Some False\<rparr>
      else e\<lparr>velocity := (velocity e)\<lparr>vec_y := vec_y (velocity e) + GRAVITY\<rparr>\<rparr>)"

text \<open>Lines 109 to 111: the two screen-boundary tests, one after the other.\<close>

definition update_bounds :: "Sprite \<Rightarrow> Sprite" where
  "update_bounds e =
     (let e1 = (if vec_x (position e) < 0
                then e\<lparr>position := (position e)\<lparr>vec_x := 0\<rparr>\<rparr> else e)
      in if vec_x (position e1) + width e1 > canvas_width
         then e1\<lparr>position := (position e1)\<lparr>vec_x := canvas_width - width e1\<rparr>\<rparr>
         else e1)"

text \<open>The whole method: after drawing, a dead sprite returns at line 84.\<close>

definition update :: "Sprite \<Rightarrow> Sprite" where
  "update e =
     (if isDead e then e
      else update_bounds (update_gravity (update_position (update_attackBox e))))"

text \<open>\<open>takeHit\<close>, lines 122 to 128.\<close>

definition takeHit :: "rat \<Rightarrow> Sprite \<Rightarrow> Sprite" where
  "takeHit damage e =
     (let e1 = e\<lparr>health := health e - damage\<rparr>
      in if health e1 \<le> 0 then e1\<lparr>health := 0, isDead := True\<rparr> else e1)"

text \<open>A sequence of \<open>takeHit\<close> calls on one sprite, first amount first.\<close>

fun takeHits :: "rat list \<Rightarrow> Sprite \<Rightarrow> Sprite" where
  "takeHits [] e = e"
| "takeHits (d # ds) e = takeHits ds (takeHit d e)"

subsection \<open>rectangularCollision (lines 163 to 170)\<close>

definition rectangularCollision :: "Sprite \<Rightarrow> Sprite \<Rightarrow> bool" where
  "rectangularCollision rectangle1 rectangle2 \<longleftrightarrow>
     vec_x (box_position (attackBox rectangle1)) + box_width (attackBox rectangle1)
       \<ge> vec_x (position rectangle2) \<and>
     vec_x (box_position (attackBox rectangle1))
       \<le> vec_x (position rectangle2) + width rectangle2 \<and>
     vec_y (box_position (attackBox rectangle1)) + box_height (attackBox rectangle1)
       \<ge> vec_y (position rectangle2) \<and>
     vec_y (box_position (attackBox rectangle1))
       \<le> vec_y (position rectangle2) + height rectangle2"

text \<open>The specification's wording of the same test: the attack box and the body box, as
  closed rectangles of the plane, have a point in common.\<close>

definition attackRegion :: "Sprite \<Rightarrow> (rat \<times> rat) set" where
  "attackRegion a =
     {vec_x (box_position (attackBox a)) ..
        vec_x (box_position (attackBox a)) + box_width (attackBox a)}
     \<times> {vec_y (box_position (attackBox a)) ..
          vec_y (box_position (attackBox a)) + box_height (attackBox a)}"

definition bodyRegion :: "Sprite \<Rightarrow> (rat \<times> rat) set" where
  "bodyRegion d =
     {vec_x (position d) .. vec_x (position d) + width d}
     \<times> {vec_y (position d) .. vec_y (position d) + height d}"

definition spec_overlaps :: "Sprite \<Rightarrow> Sprite \<Rightarrow> bool" where
  "spec_overlaps a d \<longleftrightarrow> attackRegion a \<inter> bodyRegion d \<noteq> {}"

subsection \<open>The script's global state and its host\<close>

text \<open>
  The two sprites, the pressed state of the keys the frame loop reads (\<open>keys.a\<close>, \<open>keys.d\<close>)
  and the globals \<open>timer\<close>, \<open>timerId\<close>, \<open>gameRunning\<close> of lines 26 to 28. The host's part:
  \<open>timeouts\<close> are the callbacks registered with \<open>setTimeout\<close> and not yet run or cleared, each
  with its id and the clock value (in milliseconds) from which it may run; \<open>now\<close> is the clock.
  Writes to the page (health bars, timer box, result banner) are appended to \<open>outputs\<close> in the
  order they happen.
\<close>

datatype who = Player | Enemy

datatype callback = ResetAttack who | DecreaseTimer

datatype ui_write =
    HealthBarWidth who rat
  | TimerText int
  | ResultDisplayFlex
  | ResultText string

record Game =
  player :: Sprite
  enemy :: Sprite
  keys_a_pressed :: bool
  keys_d_pressed :: bool
  timer :: int
  timerId :: "nat option"
  gameRunning :: bool
  timeouts :: "(nat \<times> nat \<times> callback) list"
  nextTimeoutId :: nat
  now :: nat
  outputs :: "ui_write list"


fun with_sprite :: "who \<Rightarrow> (Sprite \<Rightarrow> Sprite) \<Rightarrow> Game \<Rightarrow> Game" where
  "with_sprite Player f s = s\<lparr>player := f (player s)\<rparr>"
| "with_sprite Enemy f s = s\<lparr>enemy := f (enemy s)\<rparr>"

definition emit :: "ui_write \<Rightarrow> Game \<Rightarrow> Game" where
  "emit out s = s\<lparr>outputs := outputs s @ [out]\<rparr>"

text \<open>\<open>setTimeout(cb, delay)\<close> registers the callback and returns its id;
  \<open>clearTimeout(id)\<close> removes it, and does nothing for \<open>undefined\<close> or an id no longer
  registered.\<close>

definition setTimeout :: "callback \<Rightarrow> nat \<Rightarrow> Game \<Rightarrow> nat \<times> Game" where
  "setTimeout cb delay s =
     (nextTimeoutId s,
      s\<lparr>timeouts := timeouts s @ [(nextTimeoutId s, now s + delay, cb)],
        nextTimeoutId := Suc (nextTimeoutId s)\<rparr>)"

definition clearTimeout :: "nat option \<Rightarrow> Game \<Rightarrow> Game" where
  "clearTimeout i s =
     (case i of
        None \<Rightarrow> s
      | Some k \<Rightarrow> s\<lparr>timeouts := filter (\<lambda>t. fst t \<noteq> k) (timeouts s)\<rparr>)"

text \<open>\<open>Sprite.attack\<close>, lines 114 to 120, for the sprite \<open>w\<close>: the flag is set and a reset is
  registered 100 ms ahead; the id that \<open>setTimeout\<close> returns is dropped.\<close>

definition attack :: "who \<Rightarrow> Game \<Rightarrow> Game" where
  "attack w s =
     snd (setTimeout (ResetAttack w) 100 (with_sprite w (\<lambda>e. e\<lparr>isAttacking := True\<rparr>) s))"

text \<open>\<open>determineWinner\<close>, lines 172 to 184, called with the current value of \<open>timerId\<close>.\<close>

definition determineWinner :: "Game \<Rightarrow> Game" where
  "determineWinner s =
     (let s1 = clearTimeout (timerId s) s;
          s2 = s1\<lparr>gameRunning := False\<rparr>;
          s3 = emit ResultDisplayFlex s2
      in if health (player s3) = health (enemy s3) then emit (ResultText ''Tie'') s3
         else if health (player s3) > health (enemy s3)
              then emit (ResultText ''Player 1 Wins'') s3
              else emit (ResultText ''Enemy Wins'') s3)"

text \<open>\<open>decreaseTimer\<close>, lines 186 to 196.\<close>

definition decreaseTimer :: "Game \<Rightarrow> Game" where
  "decreaseTimer s =
     (let s1 = (if timer s > 0
                then (let (i, t) = setTimeout DecreaseTimer 1000 s;
                          t1 = t\<lparr>timerId := Some i\<rparr>;
                          t2 = t1\<lparr>timer := timer t1 - 1\<rparr>
                      in emit (TimerText (timer t2)) t2)
                else s)
      in if timer s1 = 0 then determineWinner s1 else s1)"

text \<open>\<open>updateEnemyAI\<close>, lines 199 to 229. \<open>r\<close> is the value \<open>Math.random()\<close> returns in this
  call, a number in \<open>[0, 1)\<close>; it is read only in the last branch.\<close>

definition updateEnemyAI :: "rat \<Rightarrow> Game \<Rightarrow> Game" where
  "updateEnemyAI r s =
     (if isDead (enemy s) \<or> \<not> gameRunning s
      then s\<lparr>enemy := (enemy s)\<lparr>velocity := (velocity (enemy s))\<lparr>vec_x := 0\<rparr>\<rparr>\<rparr>
      else
        let detectionRange = 400;
            distanceX = vec_x (position (player s)) - vec_x (position (enemy s));
            distance = \<bar>distanceX\<bar>;
            s1 = s\<lparr>enemy := (enemy s)\<lparr>velocity := (velocity (enemy s))\<lparr>vec_x := 0\<rparr>\<rparr>\<rparr>
        in if distance < detectionRange \<and> distance > 60
           then (if distanceX > 0
                 then s1\<lparr>enemy := (enemy s1)\<lparr>velocity := (velocity (enemy s1))\<lparr>vec_x := 2\<rparr>,
                                              direction := 1\<rparr>\<rparr>
                 else s1\<lparr>enemy := (enemy s1)\<lparr>velocity := (velocity (enemy s1))\<lparr>vec_x := - 2\<rparr>,
                                              direction := - 1\<rparr>\<rparr>)
           else if distance \<le> 60
           then (let s2 = s1\<lparr>enemy := (enemy s1)\<lparr>direction := (if distanceX > 0 then 1 else - 1)\<rparr>\<rparr>
                 in if r < 2 / 100 then attack Enemy s2 else s2)
           else s1)"

subsection \<open>animate (lines 235 to 305)\<close>

text \<open>Lines 256 to 258.\<close>

definition animate_update :: "Game \<Rightarrow> Game" where
  "animate_update s = (let s1 = s\<lparr>player := update (player s)\<rparr> in s1\<lparr>enemy := update (enemy s1)\<rparr>)"

text \<open>Lines 260 to 272.\<close>

definition animate_movement :: "Game \<Rightarrow> Game" where
  "animate_movement s =
     (let s1 = s\<lparr>player := (player s)\<lparr>velocity := (velocity (player s))\<lparr>vec_x := 0\<rparr>\<rparr>\<rparr>
      in if \<not> isDead (player s1) \<and> gameRunning s1
         then (if keys_a_pressed s1 \<and> lastKey (player s1) = ''a''
               then s1\<lparr>player := (player s1)\<lparr>velocity := (velocity (player s1))\<lparr>vec_x := - 5\<rparr>,
                                              direction := - 1\<rparr>\<rparr>
               else if keys_d_pressed s1 \<and> lastKey (player s1) = ''d''
               then s1\<lparr>player := (player s1)\<lparr>velocity := (velocity (player s1))\<lparr>vec_x := 5\<rparr>,
                                              direction := 1\<rparr>\<rparr>
               else s1)
         else s1)"

text \<open>Lines 277 to 287: the player hitting the enemy.\<close>

definition animate_playerHits :: "Game \<Rightarrow> Game" where
  "animate_playerHits s =
     (if rectangularCollision (player s) (enemy s) \<and> isAttacking (player s) \<and> gameRunning s
      then (let s1 = s\<lparr>player := (player s)\<lparr>isAttacking := False\<rparr>\<rparr>
            in if \<not> isDead (enemy s1)
               then (let s2 = s1\<lparr>enemy := takeHit 10 (enemy s1)\<rparr>
                     in emit (HealthBarWidth Enemy (health (enemy s2))) s2)
               else s1)
      else s)"

text \<open>Lines 289 to 299: the enemy hitting the player.\<close>

definition animate_enemyHits :: "Game \<Rightarrow> Game" where
  "animate_enemyHits s =
     (if rectangularCollision (enemy s) (player s) \<and> isAttacking (enemy s) \<and> gameRunning s
      then (let s1 = s\<lparr>enemy := (enemy s)\<lparr>isAttacking := False\<rparr>\<rparr>
            in if \<not> isDead (player s1)
               then (let s2 = s1\<lparr>player := takeHit 10 (player s1)\<rparr>
                     in emit (HealthBarWidth Player (health (player s2))) s2)
               else s1)
      else s)"

text \<open>Lines 301 to 304: the end-of-game check.\<close>

definition animate_endCheck :: "Game \<Rightarrow> Game" where
  "animate_endCheck s =
     (if health (enemy s) \<le> 0 \<or> health (player s) \<le> 0 then determineWinner s else s)"

text \<open>One frame. \<open>requestAnimationFrame(animate)\<close> at line 236 asks for the next frame
  unconditionally, so a frame can always follow; the canvas drawing of lines 238 to 254 writes
  no state.\<close>

definition animate :: "rat \<Rightarrow> Game \<Rightarrow> Game" where
  "animate r s =
     animate_endCheck (animate_enemyHits (animate_playerHits
       (updateEnemyAI r (animate_movement (animate_update s)))))"

subsection \<open>Input handling (lines 311 to 341)\<close>

text \<open>The handlers switch on \<open>event.key.toLowerCase()\<close>; \<open>k\<close> is that lower-cased string.\<close>

definition keydown :: "string \<Rightarrow> Game \<Rightarrow> Game" where
  "keydown k s =
     (if \<not> gameRunning s then s
      else if k = ''d'' then s\<lparr>keys_d_pressed := True, player := (player s)\<lparr>lastKey := ''d''\<rparr>\<rparr>
      else if k = ''a'' then s\<lparr>keys_a_pressed := True, player := (player s)\<lparr>lastKey := ''a''\<rparr>\<rparr>
      else if k = ''w''
      then (if vec_y (velocity (player s)) = 0
            then s\<lparr>player := (player s)\<lparr>velocity := (velocity (player s))\<lparr>vec_y := - 15\<rparr>\<rparr>\<rparr>
            else s)
      else if k = '' '' then attack Player s
      else s)"

definition keyup :: "string \<Rightarrow> Game \<Rightarrow> Game" where
  "keyup k s =
     (if k = ''d'' then s\<lparr>keys_d_pressed := False\<rparr>
      else if k = ''a'' then s\<lparr>keys_a_pressed := False\<rparr>
      else s)"

subsection \<open>The host's event loop\<close>

text \<open>The registered callback that may run first: the least clock value, and among equal
  ones the one registered first.\<close>

fun earliest :: "(nat \<times> nat \<times> callback) list \<Rightarrow> (nat \<times> nat \<times> callback) option" where
  "earliest [] = None"
| "earliest (t # ts) =
     (case earliest ts of
        None \<Rightarrow> Some t
      | Some u \<Rightarrow> if fst (snd u) < fst (snd t) then Some u else Some t)"

fun run_callback :: "callback \<Rightarrow> Game \<Rightarrow> Game" where
  "run_callback (ResetAttack w) s = with_sprite w (\<lambda>e. e\<lparr>isAttacking := False\<rparr>) s"
| "run_callback DecreaseTimer s = decreaseTimer s"

text \<open>What can happen between two runs of the script: a frame (with the random number the AI
  would draw), a key event, the clock advancing, or the earliest registered callback running
  once the clock has reached its time. A callback never runs early.\<close>

datatype event = Frame rat | KeyDown string | KeyUp string | Wait nat | Fire

fun step :: "event \<Rightarrow> Game \<Rightarrow> Game" where
  "step (Frame r) s = animate r s"
| "step (KeyDown k) s = keydown k s"
| "step (KeyUp k) s = keyup k s"
| "step (Wait d) s = s\<lparr>now := now s + d\<rparr>"
| "step Fire s =
     (case earliest (timeouts s) of
        None \<Rightarrow> s
      | Some (i, due, cb) \<Rightarrow>
          if due \<le> now s
          then run_callback cb (s\<lparr>timeouts := filter (\<lambda>t. fst t \<noteq> i) (timeouts s)\<rparr>)
          else s)"

fun run :: "event list \<Rightarrow> Game \<Rightarrow> Game" where
  "run [] s = s"
| "run (ev # evs) s = run evs (step ev s)"

text \<open>Lines 135 to 157, 26 to 28, and the start of the game at lines 344 and 345.\<close>

definition initialGame :: Game where
  "initialGame =
     \<lparr> player = newSprite \<lparr> vec_x = 100, vec_y = 0 \<rparr> \<lparr> vec_x = 0, vec_y = 0 \<rparr> ''#818cf8''
                  \<lparr> vec_x = 0, vec_y = 50 \<rparr>,
       enemy = (newSprite \<lparr> vec_x = 800, vec_y = 0 \<rparr> \<lparr> vec_x = 0, vec_y = 0 \<rparr> ''#f87171''
                  \<lparr> vec_x = 0, vec_y = 50 \<rparr>)\<lparr>direction := - 1\<rparr>,
       keys_a_pressed = False,
       keys_d_pressed = False,
       timer = 60,
       timerId = None,
       gameRunning = True,
       timeouts = [],
       nextTimeoutId = 1,
       now = 0,
       outputs = [] \<rparr>"

definition startGame :: "rat \<Rightarrow> Game" where
  "startGame r = animate r (decreaseTimer initialGame)"

text \<open>How often the result banner's text has been written.\<close>

definition resultCount :: "Game \<Rightarrow> nat" where
  "resultCount s = length (filter (\<lambda>out. case out of ResultText m \<Rightarrow> True | _ \<Rightarrow> False) (outputs s))"

subsection \<open>Inputs and states used below\<close>

text \<open>Inputs to the game from its start, a frame every 16 ms; before each frame the earliest
  registered callback runs if its time has come. In a \<open>tick\<close> the random draw is 0.5 (the
  enemy does not attack), in a \<open>tock\<close> it is 0.01 (the enemy attacks when the player is within
  60), in a \<open>strike\<close> the player presses the attack key before the frame.\<close>

definition tick :: "event list" where
  "tick = [Wait 16, Fire, Frame (1 / 2)]"

definition tock :: "event list" where
  "tock = [Wait 16, Fire, Frame (1 / 100)]"

definition strike :: "event list" where
  "strike = [Wait 16, Fire, KeyDown '' '', Frame (1 / 2)]"

text \<open>The player holds the right key for 108 frames and lets go.\<close>

definition approachTrace :: "event list" where
  "approachTrace = [KeyDown ''d''] @ concat (replicate 108 tick) @ [KeyUp ''d'']"

text \<open>Where that leaves the game (\<open>approached_reached\<close> below): both sprites on the ground, the
  enemy walking towards the player, 73 apart.\<close>

definition approached :: Game where
  "approached =
     \<lparr> player =
         \<lparr> position = \<lparr> vec_x = 635, vec_y = 330 \<rparr>,
           velocity = \<lparr> vec_x = 5, vec_y = 0 \<rparr>,
           width = 50, height = 150, lastKey = ''d'',
           attackBox = \<lparr> box_position = \<lparr> vec_x = 630, vec_y = 380 \<rparr>,
                         box_offset = \<lparr> vec_x = 0, vec_y = 50 \<rparr>,
                         box_width = 100, box_height = 50 \<rparr>,
           color = ''#818cf8'', isAttacking = False, health = 100, isDead = False,
           direction = 1, isJumping = Some False \<rparr>,
       enemy =
         \<lparr> position = \<lparr> vec_x = 708, vec_y = 330 \<rparr>,
           velocity = \<lparr> vec_x = - 2, vec_y = 0 \<rparr>,
           width = 50, height = 150, lastKey = '''',
           attackBox = \<lparr> box_position = \<lparr> vec_x = 660, vec_y = 380 \<rparr>,
                         box_offset = \<lparr> vec_x = 0, vec_y = 50 \<rparr>,
                         box_width = 100, box_height = 50 \<rparr>,
           color = ''#f87171'', isAttacking = False, health = 100, isDead = False,
           direction = - 1, isJumping = Some False \<rparr>,
       keys_a_pressed = False,
       keys_d_pressed = False,
       timer = 58,
       timerId = Some 2,
       gameRunning = True,
       timeouts = [(2, 2008, DecreaseTimer)],
       nextTimeoutId = 3,
       now = 1728,
       outputs = [TimerText 59, TimerText 58] \<rparr>"

text \<open>After the approach the player lands nine attacks and presses the attack key once
  more.\<close>

definition lastBlowTrace :: "event list" where
  "lastBlowTrace = approachTrace @ concat (replicate 9 strike) @ [Wait 16, Fire, KeyDown '' '']"

text \<open>Where that leaves the game (\<open>lastBlow_reached\<close> below): the match is running, the player
  stands within reach of the enemy with its attack flag set, the enemy has health 10.\<close>

definition lastBlow :: Game where
  "lastBlow =
     \<lparr> player =
         \<lparr> position = \<lparr> vec_x = 640, vec_y = 330 \<rparr>,
           velocity = \<lparr> vec_x = 0, vec_y = 0 \<rparr>,
           width = 50, height = 150, lastKey = ''d'',
           attackBox = \<lparr> box_position = \<lparr> vec_x = 640, vec_y = 380 \<rparr>,
                         box_offset = \<lparr> vec_x = 0, vec_y = 50 \<rparr>,
                         box_width = 100, box_height = 50 \<rparr>,
           color = ''#818cf8'', isAttacking = True, health = 100, isDead = False,
           direction = 1, isJumping = Some False \<rparr>,
       enemy =
         \<lparr> position = \<lparr> vec_x = 700, vec_y = 330 \<rparr>,
           velocity = \<lparr> vec_x = 0, vec_y = 0 \<rparr>,
           width = 50, height = 150, lastKey = '''',
           attackBox = \<lparr> box_position = \<lparr> vec_x = 650, vec_y = 380 \<rparr>,
                         box_offset = \<lparr> vec_x = 0, vec_y = 50 \<rparr>,
                         box_width = 100, box_height = 50 \<rparr>,
           color = ''#f87171'', isAttacking = False, health = 10, isDead = False,
           direction = - 1, isJumping = Some False \<rparr>,
       keys_a_pressed = False,
       keys_d_pressed = False,
       timer = 58,
       timerId = Some 2,
       gameRunning = True,
       timeouts = [(2, 2008, DecreaseTimer), (6, 1892, ResetAttack Player),
                   (7, 1908, ResetAttack Player), (8, 1924, ResetAttack Player),
                   (9, 1940, ResetAttack Player), (10, 1956, ResetAttack Player),
                   (11, 1972, ResetAttack Player), (12, 1988, ResetAttack Player)],
       nextTimeoutId = 13,
       now = 1888,
       outputs = [TimerText 59, TimerText 58, HealthBarWidth Enemy 90,
                  HealthBarWidth Enemy 80, HealthBarWidth Enemy 70, HealthBarWidth Enemy 60,
                  HealthBarWidth Enemy 50, HealthBarWidth Enemy 40, HealthBarWidth Enemy 30,
                  HealthBarWidth Enemy 20, HealthBarWidth Enemy 10] \<rparr>"

text \<open>After the approach the enemy closes in during four frames and lands nine attacks; the
  player jumps, presses the right key 39 frames later, and takes the tenth hit in the 42nd
  frame of the jump.\<close>

definition fallTrace :: "event list" where
  "fallTrace =
     approachTrace @ concat (replicate 4 tick) @ concat (replicate 9 tock)
       @ [KeyDown ''w''] @ concat (replicate 39 tick) @ [KeyDown ''d''] @ tick @ tick @ tock"

text \<open>The player at the end of that input (\<open>fallenSprite_reached\<close> below): dead and in the air,
  27.3 above the ground line, with a velocity of 5 to the right and 14.4 downwards.\<close>

definition fallenSprite :: Sprite where
  "fallenSprite =
     \<lparr> position = \<lparr> vec_x = 650, vec_y = 3027 / 10 \<rparr>,
       velocity = \<lparr> vec_x = 5, vec_y = 72 / 5 \<rparr>,
       width = 50,
       height = 150,
       lastKey = ''d'',
       attackBox = \<lparr> box_position = \<lparr> vec_x = 645, vec_y = 339 \<rparr>,
                     box_offset = \<lparr> vec_x = 0, vec_y = 50 \<rparr>,
                     box_width = 100,
                     box_height = 50 \<rparr>,
       color = ''#818cf8'',
       isAttacking = False,
       health = 0,
       isDead = True,
       direction = 1,
       isJumping = Some False \<rparr>"

text \<open>The same sprite one hit earlier, still alive.\<close>

definition fallingSprite :: Sprite where
  "fallingSprite = fallenSprite\<lparr>health := 10, isDead := False\<rparr>"

text \<open>A live sprite 10 above the ground line, moving down by 6 per frame.\<close>

definition landingSprite :: Sprite where
  "landingSprite =
     newSprite \<lparr> vec_x = 650, vec_y = 320 \<rparr> \<lparr> vec_x = 0, vec_y = 6 \<rparr> ''#818cf8''
       \<lparr> vec_x = 0, vec_y = 50 \<rparr>"

text \<open>The countdown running out: sixty seconds, a callback run after each.\<close>

definition countdownTrace :: "event list" where
  "countdownTrace = concat (replicate 60 [Wait 1000, Fire])"

text \<open>The opening position with the player moved: 200 to the right of the enemy, and 30 to
  its left.\<close>

definition chasing :: Game where
  "chasing =
     initialGame\<lparr>player := (player initialGame)\<lparr>position := \<lparr> vec_x = 600, vec_y = 330 \<rparr>\<rparr>,
                  enemy := (enemy initialGame)\<lparr>position := \<lparr> vec_x = 400, vec_y = 330 \<rparr>\<rparr>\<rparr>"

definition inReach :: Game where
  "inReach =
     initialGame\<lparr>player := (player initialGame)\<lparr>position := \<lparr> vec_x = 770, vec_y = 330 \<rparr>\<rparr>\<rparr>"




text \<open>What every state of a game satisfies (shown below): a sprite is dead exactly when its
  health is used up, and while the match runs both sprites have health left.\<close>

definition healthInv :: "Game \<Rightarrow> bool" where
  "healthInv s \<longleftrightarrow>
     (isDead (player s) \<longleftrightarrow> health (player s) \<le> 0)
     \<and> (isDead (enemy s) \<longleftrightarrow> health (enemy s) \<le> 0)
     \<and> (gameRunning s \<longrightarrow> 0 < health (player s) \<and> 0 < health (enemy s))"

section \<open>Properties of the sprite\<close>

subsection \<open>Damage\<close>

lemma takeHit_keeps_invariant:
  assumes "0 \<le> d" and "0 \<le> health e" and "health e \<le> 100" and "isDead e \<longleftrightarrow> health e = 0"
  shows "0 \<le> health (takeHit d e) \<and> health (takeHit d e) \<le> 100
         \<and> (isDead (takeHit d e) \<longleftrightarrow> health (takeHit d e) = 0)"
  using assms by (auto simp: takeHit_def Let_def)

lemma takeHits_keeps_invariant:
  "\<forall>d\<in>set ds. 0 \<le> d \<Longrightarrow> 0 \<le> health e \<Longrightarrow> health e \<le> 100 \<Longrightarrow> (isDead e \<longleftrightarrow> health e = 0)
   \<Longrightarrow> 0 \<le> health (takeHits ds e) \<and> health (takeHits ds e) \<le> 100
         \<and> (isDead (takeHits ds e) \<longleftrightarrow> health (takeHits ds e) = 0)"
proof (induction ds arbitrary: e)
  case Nil
  then show ?case by simp
next
  case (Cons d ds)
  have "0 \<le> d" using Cons.prems(1) by simp
  from takeHit_keeps_invariant[OF this Cons.prems(2,3,4)]
  show ?case using Cons.IH[of "takeHit d e"] Cons.prems(1) by simp
qed

lemma takeHit_dead_noop:
  "isDead e \<Longrightarrow> health e = 0 \<Longrightarrow> 0 \<le> d \<Longrightarrow> takeHit d e = e"
  by (simp add: takeHit_def Let_def)

text \<open>
  C3. A sprite as the constructor makes it takes any sequence \<open>ds\<close> of hits with nonnegative
  amounts. After every number \<open>n\<close> of them its health is between 0 and 100, it is dead exactly
  when its health is 0, and once it is dead a further hit of any nonnegative amount leaves
  the sprite exactly as it was.
\<close>

theorem takeHits_health_bounds:
  assumes "\<forall>d\<in>set ds. 0 \<le> d" and "n \<le> length ds"
  shows "0 \<le> health (takeHits (take n ds) (newSprite pos vel col off))
       \<and> health (takeHits (take n ds) (newSprite pos vel col off)) \<le> 100
       \<and> (isDead (takeHits (take n ds) (newSprite pos vel col off))
            \<longleftrightarrow> health (takeHits (take n ds) (newSprite pos vel col off)) = 0)
       \<and> (isDead (takeHits (take n ds) (newSprite pos vel col off)) \<longrightarrow>
            (\<forall>d\<ge>0. takeHit d (takeHits (take n ds) (newSprite pos vel col off))
                     = takeHits (take n ds) (newSprite pos vel col off)))"
proof -
  let ?e = "takeHits (take n ds) (newSprite pos vel col off)"
  have nonneg: "\<forall>d\<in>set (take n ds). 0 \<le> d"
    using assms(1) by (meson in_set_takeD)
  have inv: "0 \<le> health ?e \<and> health ?e \<le> 100 \<and> (isDead ?e \<longleftrightarrow> health ?e = 0)"
    by (rule takeHits_keeps_invariant[OF nonneg]) (simp_all add: newSprite_def)
  then show ?thesis using takeHit_dead_noop[of ?e] by blast
qed

theorem takeHits_health_bounds_witness:
  "(0::rat) \<le> 30 \<and> (0::rat) \<le> 80 \<and> (0::rat) \<le> 5 \<and> (2::nat) \<le> length [30, 80, 5 :: rat]
   \<and> health (takeHits (take 2 [30, 80, 5])
        (newSprite \<lparr>vec_x = 100, vec_y = 0\<rparr> \<lparr>vec_x = 0, vec_y = 0\<rparr> ''#818cf8''
           \<lparr>vec_x = 0, vec_y = 50\<rparr>)) = 0
   \<and> isDead (takeHits (take 2 [30, 80, 5])
        (newSprite \<lparr>vec_x = 100, vec_y = 0\<rparr> \<lparr>vec_x = 0, vec_y = 0\<rparr> ''#818cf8''
           \<lparr>vec_x = 0, vec_y = 50\<rparr>))
   \<and> takeHit 5 (takeHits (take 2 [30, 80, 5])
        (newSprite \<lparr>vec_x = 100, vec_y = 0\<rparr> \<lparr>vec_x = 0, vec_y = 0\<rparr> ''#818cf8''
           \<lparr>vec_x = 0, vec_y = 50\<rparr>))
       = takeHits (take 2 [30, 80, 5])
        (newSprite \<lparr>vec_x = 100, vec_y = 0\<rparr> \<lparr>vec_x = 0, vec_y = 0\<rparr> ''#818cf8''
           \<lparr>vec_x = 0, vec_y = 50\<rparr>)"
  using takeHits_health_bounds[of "[30, 80, 5]" 2 "\<lparr>vec_x = 100, vec_y = 0\<rparr>"
      "\<lparr>vec_x = 0, vec_y = 0\<rparr>" "''#818cf8''" "\<lparr>vec_x = 0, vec_y = 50\<rparr>"]
  by (simp add: newSprite_def takeHit_def Let_def)

subsection \<open>The per-frame update\<close>

text \<open>
  C2, as stated, fails: for the dead sprite \<open>fallenSprite\<close>, the player at the end of the input
  \<open>fallTrace\<close>, the update moves the attack box neither to \<open>position.x + offset.x\<close> nor to
  \<open>position.y + offset.y\<close>, and adds no gravity to the vertical velocity.
\<close>

theorem dead_update_counterexample:
  "isDead fallenSprite
   \<and> direction fallenSprite = 1
   \<and> vec_x (box_position (attackBox (update fallenSprite)))
       \<noteq> vec_x (position fallenSprite) + vec_x (box_offset (attackBox fallenSprite))
   \<and> vec_y (box_position (attackBox (update fallenSprite)))
       \<noteq> vec_y (position fallenSprite) + vec_y (box_offset (attackBox fallenSprite))
   \<and> vec_y (velocity (update fallenSprite)) = vec_y (velocity fallenSprite)"
  by (simp add: fallenSprite_def update_def)

text \<open>
  C2, amended. For every sprite with \<open>isDead\<close> set, the update returns right after drawing:
  it runs neither the attack-box alignment nor the position, gravity and boundary
  computation, and leaves every field of the sprite, the attack box included, as it was.
\<close>

theorem dead_update_unchanged: "isDead e \<Longrightarrow> update e = e"
  by (simp add: update_def)

theorem dead_update_unchanged_witness:
  "isDead fallenSprite \<and> update fallenSprite = fallenSprite"
  using dead_update_unchanged[of fallenSprite] by (simp add: fallenSprite_def)

text \<open>
  C6. The alignment block of the update (lines 86 to 94), for every sprite: facing right
  (\<open>direction = 1\<close>) it puts the box at \<open>position.x + offset.x\<close>, facing left (any other
  direction) at \<open>position.x - attackBox.width + width - offset.x\<close>, and in both cases at
  \<open>position.y + offset.y\<close>; the block changes none of the values it reads. The update of a
  sprite that is not dead leaves the attack box as this block has put it.
\<close>

theorem attackBox_alignment:
  "(direction e = 1 \<longrightarrow>
      vec_x (box_position (attackBox (update_attackBox e)))
        = vec_x (position e) + vec_x (box_offset (attackBox e)))
   \<and> (direction e \<noteq> 1 \<longrightarrow>
      vec_x (box_position (attackBox (update_attackBox e)))
        = vec_x (position e) - box_width (attackBox e) + width e
            - vec_x (box_offset (attackBox e)))
   \<and> vec_y (box_position (attackBox (update_attackBox e)))
        = vec_y (position e) + vec_y (box_offset (attackBox e))
   \<and> position (update_attackBox e) = position e
   \<and> direction (update_attackBox e) = direction e
   \<and> width (update_attackBox e) = width e
   \<and> box_offset (attackBox (update_attackBox e)) = box_offset (attackBox e)
   \<and> box_width (attackBox (update_attackBox e)) = box_width (attackBox e)
   \<and> (\<not> isDead e \<longrightarrow> attackBox (update e) = attackBox (update_attackBox e))"
  by (simp add: update_attackBox_def update_def update_position_def update_gravity_def
        update_bounds_def Let_def)

theorem attackBox_alignment_witness:
  "direction fallingSprite = 1 \<and> \<not> isDead fallingSprite
   \<and> box_position (attackBox (update fallingSprite)) = \<lparr> vec_x = 650, vec_y = 3527 / 10 \<rparr>
   \<and> direction (fallingSprite\<lparr>direction := - 1\<rparr>) \<noteq> 1
   \<and> box_position (attackBox (update (fallingSprite\<lparr>direction := - 1\<rparr>)))
       = \<lparr> vec_x = 600, vec_y = 3527 / 10 \<rparr>"
  using attackBox_alignment[of fallingSprite]
    attackBox_alignment[of "fallingSprite\<lparr>direction := - 1\<rparr>"]
  by (simp add: fallingSprite_def fallenSprite_def update_attackBox_def Let_def)

text \<open>
  C7, as stated, fails twice. For a dead sprite: \<open>fallenSprite\<close>, killed in the air, has a
  positive vertical velocity and the test of line 101 would hold for it after the move of line
  98, yet its update sets the vertical velocity neither to 0 nor to the old value plus gravity,
  and does not put it on the ground line. For a live sprite: \<open>landingSprite\<close> moves down by 6
  from 320, so its projected position 326 does not reach the ground line 330, yet its update
  adds no gravity but sets the vertical velocity to 0 and the position to the ground line.
\<close>

theorem ground_snap_counterexample:
  "0 < vec_y (velocity fallenSprite)
   \<and> vec_y (position fallenSprite) + vec_y (velocity fallenSprite) + height fallenSprite
        + vec_y (velocity fallenSprite) \<ge> canvas_height - GROUND_HEIGHT
   \<and> vec_y (velocity (update fallenSprite)) \<noteq> 0
   \<and> vec_y (position (update fallenSprite)) \<noteq> GAME_HEIGHT - GROUND_HEIGHT - height fallenSprite
   \<and> vec_y (velocity (update fallenSprite)) \<noteq> vec_y (velocity fallenSprite) + GRAVITY
   \<and> \<not> isDead landingSprite
   \<and> 0 < vec_y (velocity landingSprite)
   \<and> vec_y (position landingSprite) + vec_y (velocity landingSprite)
        < GAME_HEIGHT - GROUND_HEIGHT - height landingSprite
   \<and> vec_y (velocity (update landingSprite)) \<noteq> vec_y (velocity landingSprite) + GRAVITY
   \<and> vec_y (velocity (update landingSprite)) = 0
   \<and> vec_y (position (update landingSprite)) = GAME_HEIGHT - GROUND_HEIGHT - height landingSprite"
  by (simp add: fallenSprite_def landingSprite_def newSprite_def update_def update_attackBox_def
      update_position_def update_gravity_def update_bounds_def Let_def canvas_height_def
      canvas_width_def GAME_WIDTH_def GAME_HEIGHT_def GROUND_HEIGHT_def GRAVITY_def)

text \<open>
  C7, amended. For every positive incoming vertical velocity. For a sprite that is not dead,
  the projection is the one the test of line 101 reads after the move of line 98: whenever
  \<open>position.y + velocity.y\<close> (the moved position) \<open>+ height + velocity.y\<close> is at least
  \<open>canvas.height - GROUND_HEIGHT\<close>, the update sets the vertical velocity to exactly 0 and the
  vertical position to exactly \<open>canvas.height - height - GROUND_HEIGHT\<close>; otherwise it adds
  \<open>GRAVITY\<close> to the vertical velocity, and the vertical position is the moved one. For a dead
  sprite the update changes neither the position nor the velocity. The sums and differences
  are written in the order the source computes them.
\<close>

theorem ground_snap:
  assumes "0 < vec_y (velocity e)"
  shows "(\<not> isDead e
          \<and> vec_y (position e) + vec_y (velocity e) + height e + vec_y (velocity e)
               \<ge> canvas_height - GROUND_HEIGHT \<longrightarrow>
            vec_y (velocity (update e)) = 0
            \<and> vec_y (position (update e)) = canvas_height - height e - GROUND_HEIGHT)
       \<and> (\<not> isDead e
          \<and> \<not> (vec_y (position e) + vec_y (velocity e) + height e + vec_y (velocity e)
                 \<ge> canvas_height - GROUND_HEIGHT) \<longrightarrow>
            vec_y (velocity (update e)) = vec_y (velocity e) + GRAVITY
            \<and> vec_y (position (update e)) = vec_y (position e) + vec_y (velocity e))
       \<and> (isDead e \<longrightarrow>
            position (update e) = position e \<and> velocity (update e) = velocity e)"
  by (simp add: update_attackBox_def update_def update_position_def update_gravity_def
        update_bounds_def Let_def)

theorem ground_snap_witness:
  "0 < vec_y (velocity landingSprite)
   \<and> \<not> isDead landingSprite
   \<and> vec_y (position landingSprite) + vec_y (velocity landingSprite) + height landingSprite
        + vec_y (velocity landingSprite) \<ge> canvas_height - GROUND_HEIGHT
   \<and> vec_y (velocity (update landingSprite)) = 0
   \<and> vec_y (position (update landingSprite)) = 330
   \<and> 0 < vec_y (velocity (landingSprite\<lparr>position := \<lparr> vec_x = 650, vec_y = 100 \<rparr>\<rparr>))
   \<and> \<not> isDead (landingSprite\<lparr>position := \<lparr> vec_x = 650, vec_y = 100 \<rparr>\<rparr>)
   \<and> \<not> (vec_y (position (landingSprite\<lparr>position := \<lparr> vec_x = 650, vec_y = 100 \<rparr>\<rparr>))
          + vec_y (velocity (landingSprite\<lparr>position := \<lparr> vec_x = 650, vec_y = 100 \<rparr>\<rparr>))
          + height (landingSprite\<lparr>position := \<lparr> vec_x = 650, vec_y = 100 \<rparr>\<rparr>)
          + vec_y (velocity (landingSprite\<lparr>position := \<lparr> vec_x = 650, vec_y = 100 \<rparr>\<rparr>))
          \<ge> canvas_height - GROUND_HEIGHT)
   \<and> vec_y (velocity (update (landingSprite\<lparr>position := \<lparr> vec_x = 650, vec_y = 100 \<rparr>\<rparr>)))
        = 6 + GRAVITY
   \<and> vec_y (position (update (landingSprite\<lparr>position := \<lparr> vec_x = 650, vec_y = 100 \<rparr>\<rparr>)))
        = 106
   \<and> 0 < vec_y (velocity fallenSprite)
   \<and> isDead fallenSprite
   \<and> position (update fallenSprite) = position fallenSprite
   \<and> velocity (update fallenSprite) = velocity fallenSprite"
  using ground_snap[of landingSprite]
    ground_snap[of "landingSprite\<lparr>position := \<lparr> vec_x = 650, vec_y = 100 \<rparr>\<rparr>"]
    ground_snap[of fallenSprite]
  by (simp add: landingSprite_def newSprite_def fallenSprite_def canvas_height_def
      GAME_HEIGHT_def GROUND_HEIGHT_def GRAVITY_def)

text \<open>
  C10. For every sprite, dead or alive, the update leaves the health, the death flag, the
  attack flag, the facing direction, the colour, the width, the height, the last key, and the
  attack box's offset, width and height as they were.
\<close>

theorem update_frame:
  "health (update e) = health e
   \<and> isDead (update e) = isDead e
   \<and> isAttacking (update e) = isAttacking e
   \<and> direction (update e) = direction e
   \<and> color (update e) = color e
   \<and> width (update e) = width e
   \<and> height (update e) = height e
   \<and> lastKey (update e) = lastKey e
   \<and> box_offset (attackBox (update e)) = box_offset (attackBox e)
   \<and> box_width (attackBox (update e)) = box_width (attackBox e)
   \<and> box_height (attackBox (update e)) = box_height (attackBox e)"
  by (simp add: update_attackBox_def update_def update_position_def update_gravity_def
        update_bounds_def Let_def)

subsection \<open>Collision\<close>

text \<open>
  C9. \<open>rectangularCollision\<close> is a function of its two sprites alone. For boxes of nonnegative
  width and height it holds exactly when the attacker's attack box and the defender's body
  box, as closed rectangles, have a point in common; so it holds in particular when the right
  edge of the attack box is the left edge of the body box and the vertical extents meet.
\<close>

theorem rectangularCollision_overlap:
  assumes "0 \<le> box_width (attackBox a)" and "0 \<le> box_height (attackBox a)"
    and "0 \<le> width d" and "0 \<le> height d"
  shows "(rectangularCollision a d \<longleftrightarrow> spec_overlaps a d)
       \<and> (vec_x (box_position (attackBox a)) + box_width (attackBox a) = vec_x (position d)
            \<and> vec_y (box_position (attackBox a)) = vec_y (position d)
          \<longrightarrow> rectangularCollision a d)"
proof -
  have "attackRegion a \<inter> bodyRegion d
        = {max (vec_x (box_position (attackBox a))) (vec_x (position d)) ..
           min (vec_x (box_position (attackBox a)) + box_width (attackBox a))
               (vec_x (position d) + width d)}
          \<times> {max (vec_y (box_position (attackBox a))) (vec_y (position d)) ..
           min (vec_y (box_position (attackBox a)) + box_height (attackBox a))
               (vec_y (position d) + height d)}"
    by (auto simp: attackRegion_def bodyRegion_def)
  then have "rectangularCollision a d \<longleftrightarrow> spec_overlaps a d"
    using assms by (auto simp: spec_overlaps_def rectangularCollision_def)
  moreover have "vec_x (box_position (attackBox a)) + box_width (attackBox a) = vec_x (position d)
            \<and> vec_y (box_position (attackBox a)) = vec_y (position d)
          \<longrightarrow> rectangularCollision a d"
    using assms by (auto simp: rectangularCollision_def)
  ultimately show ?thesis by blast
qed

theorem rectangularCollision_overlap_witness:
  "0 \<le> box_width (attackBox fallingSprite) \<and> 0 \<le> box_height (attackBox fallingSprite)
   \<and> 0 \<le> width (fallingSprite\<lparr>position := \<lparr> vec_x = 745, vec_y = 339 \<rparr>\<rparr>)
   \<and> 0 \<le> height (fallingSprite\<lparr>position := \<lparr> vec_x = 745, vec_y = 339 \<rparr>\<rparr>)
   \<and> vec_x (box_position (attackBox fallingSprite)) + box_width (attackBox fallingSprite)
       = vec_x (position (fallingSprite\<lparr>position := \<lparr> vec_x = 745, vec_y = 339 \<rparr>\<rparr>))
   \<and> rectangularCollision fallingSprite (fallingSprite\<lparr>position := \<lparr> vec_x = 745, vec_y = 339 \<rparr>\<rparr>)
   \<and> spec_overlaps fallingSprite (fallingSprite\<lparr>position := \<lparr> vec_x = 745, vec_y = 339 \<rparr>\<rparr>)
   \<and> \<not> rectangularCollision fallingSprite (fallingSprite\<lparr>position := \<lparr> vec_x = 746, vec_y = 339 \<rparr>\<rparr>)
   \<and> \<not> spec_overlaps fallingSprite (fallingSprite\<lparr>position := \<lparr> vec_x = 746, vec_y = 339 \<rparr>\<rparr>)"
  using rectangularCollision_overlap[of fallingSprite
      "fallingSprite\<lparr>position := \<lparr> vec_x = 745, vec_y = 339 \<rparr>\<rparr>"]
    rectangularCollision_overlap[of fallingSprite
      "fallingSprite\<lparr>position := \<lparr> vec_x = 746, vec_y = 339 \<rparr>\<rparr>"]
  by (simp add: fallingSprite_def fallenSprite_def rectangularCollision_def)

section \<open>Properties of the frame loop\<close>

lemmas frame_defs = animate_def animate_update_def update_def update_attackBox_def
  update_position_def update_gravity_def update_bounds_def animate_movement_def
  updateEnemyAI_def animate_playerHits_def animate_enemyHits_def animate_endCheck_def
  determineWinner_def clearTimeout_def emit_def takeHit_def rectangularCollision_def
  attack_def setTimeout_def canvas_height_def canvas_width_def GAME_HEIGHT_def GAME_WIDTH_def
  GROUND_HEIGHT_def GRAVITY_def Let_def

subsection \<open>What each part of a frame leaves alone\<close>

lemma update_health: "health (update e) = health e \<and> isDead (update e) = isDead e"
  by (simp add: update_attackBox_def update_def update_position_def update_gravity_def
        update_bounds_def Let_def)

lemma animate_update_keeps:
  "health (player (animate_update s)) = health (player s)
   \<and> health (enemy (animate_update s)) = health (enemy s)
   \<and> isDead (player (animate_update s)) = isDead (player s)
   \<and> isDead (enemy (animate_update s)) = isDead (enemy s)
   \<and> gameRunning (animate_update s) = gameRunning s
   \<and> outputs (animate_update s) = outputs s"
  by (simp add: animate_update_def update_health Let_def)

lemma animate_movement_keeps:
  "health (player (animate_movement s)) = health (player s)
   \<and> enemy (animate_movement s) = enemy s
   \<and> isDead (player (animate_movement s)) = isDead (player s)
   \<and> gameRunning (animate_movement s) = gameRunning s
   \<and> outputs (animate_movement s) = outputs s"
  by (simp add: animate_movement_def Let_def)

lemma updateEnemyAI_keeps:
  "player (updateEnemyAI r s) = player s
   \<and> health (enemy (updateEnemyAI r s)) = health (enemy s)
   \<and> isDead (enemy (updateEnemyAI r s)) = isDead (enemy s)
   \<and> gameRunning (updateEnemyAI r s) = gameRunning s
   \<and> outputs (updateEnemyAI r s) = outputs s"
  by (simp add: updateEnemyAI_def Let_def attack_def setTimeout_def)

lemma before_hits_keeps:
  "health (player (updateEnemyAI r (animate_movement (animate_update s)))) = health (player s)
   \<and> health (enemy (updateEnemyAI r (animate_movement (animate_update s)))) = health (enemy s)
   \<and> isDead (player (updateEnemyAI r (animate_movement (animate_update s)))) = isDead (player s)
   \<and> isDead (enemy (updateEnemyAI r (animate_movement (animate_update s)))) = isDead (enemy s)
   \<and> gameRunning (updateEnemyAI r (animate_movement (animate_update s))) = gameRunning s
   \<and> outputs (updateEnemyAI r (animate_movement (animate_update s))) = outputs s"
  by (simp add: updateEnemyAI_keeps animate_movement_keeps animate_update_keeps)

lemma determineWinner_effect:
  "player (determineWinner s) = player s \<and> enemy (determineWinner s) = enemy s
   \<and> \<not> gameRunning (determineWinner s)
   \<and> timer (determineWinner s) = timer s
   \<and> timeouts (determineWinner s) = timeouts (clearTimeout (timerId s) s)
   \<and> outputs (determineWinner s) = outputs s @ [ResultDisplayFlex,
        ResultText (if health (player s) = health (enemy s) then ''Tie''
                    else if health (player s) > health (enemy s) then ''Player 1 Wins''
                    else ''Enemy Wins'')]"
  by (cases "timerId s") (simp_all add: determineWinner_def clearTimeout_def emit_def Let_def)

lemma endCheck_sprites:
  "player (animate_endCheck s) = player s \<and> enemy (animate_endCheck s) = enemy s"
  by (simp add: animate_endCheck_def determineWinner_effect)

lemma determineWinner_resultCount:
  "resultCount (determineWinner s) = Suc (resultCount s)"
  by (simp add: determineWinner_effect resultCount_def)

lemma playerHits_resultCount: "resultCount (animate_playerHits s) = resultCount s"
  by (simp add: animate_playerHits_def Let_def emit_def resultCount_def)

lemma enemyHits_resultCount: "resultCount (animate_enemyHits s) = resultCount s"
  by (simp add: animate_enemyHits_def Let_def emit_def resultCount_def)


lemma attack_keeps:
  "health (player (attack w s)) = health (player s)
   \<and> health (enemy (attack w s)) = health (enemy s)
   \<and> isDead (player (attack w s)) = isDead (player s)
   \<and> isDead (enemy (attack w s)) = isDead (enemy s)
   \<and> gameRunning (attack w s) = gameRunning s
   \<and> outputs (attack w s) = outputs s"
  by (cases w) (simp_all add: attack_def setTimeout_def)

lemma startGame_value:
  "startGame (1 / 2) =
     initialGame\<lparr>timer := 59, timerId := Some 1,
       timeouts := [(1, 1000, DecreaseTimer)], nextTimeoutId := 2, outputs := [TimerText 59],
       player := (player initialGame)
         \<lparr>velocity := \<lparr> vec_x = 0, vec_y = 7 / 10 \<rparr>,
          attackBox := (attackBox (player initialGame))
            \<lparr>box_position := \<lparr> vec_x = 100, vec_y = 50 \<rparr>\<rparr>\<rparr>,
       enemy := (enemy initialGame)
         \<lparr>velocity := \<lparr> vec_x = 0, vec_y = 7 / 10 \<rparr>,
          attackBox := (attackBox (enemy initialGame))
            \<lparr>box_position := \<lparr> vec_x = 750, vec_y = 50 \<rparr>\<rparr>\<rparr>\<rparr>"
  by (simp add: startGame_def initialGame_def newSprite_def decreaseTimer_def frame_defs)

subsection \<open>Running an input from the start\<close>

lemma funpow_numeral_Bit0:
  "((f :: 'a \<Rightarrow> 'a) ^^ numeral (Num.Bit0 k)) s = (f ^^ numeral k) ((f ^^ numeral k) s)"
  by (simp only: numeral_Bit0 funpow_add o_apply)

lemma funpow_numeral_Bit1:
  "((f :: 'a \<Rightarrow> 'a) ^^ numeral (Num.Bit1 k)) s = f ((f ^^ numeral k) ((f ^^ numeral k) s))"
proof -
  have "numeral (Num.Bit1 k) = Suc (numeral k + numeral k)"
    by (simp add: numeral_Bit1)
  then show ?thesis by (simp only: funpow.simps funpow_add o_apply)
qed

lemma funpow_numeral_One: "((f :: 'a \<Rightarrow> 'a) ^^ numeral Num.One) s = f s"
  by (simp only: numeral_One One_nat_def funpow.simps o_apply id_apply)

lemmas funpow_binary = funpow_numeral_Bit0 funpow_numeral_Bit1 funpow_numeral_One

lemma run_append: "run (xs @ ys) s = run ys (run xs s)"
  by (induction xs arbitrary: s) simp_all

lemma run_repeat: "run (concat (replicate n es)) s = (run es ^^ n) s"
  by (induction n arbitrary: s) (simp_all add: run_append funpow_swap1)

lemmas run_defs = funpow_binary initialGame_def newSprite_def frame_defs keydown_def keyup_def
  decreaseTimer_def

lemma approached_reached: "run approachTrace (startGame (1 / 2)) = approached"
  unfolding approachTrace_def run_append run_repeat startGame_value tick_def approached_def
  by (simp add: run_defs)

lemma lastBlow_reached: "run lastBlowTrace (startGame (1 / 2)) = lastBlow"
  unfolding lastBlowTrace_def run_append approached_reached
  unfolding run_repeat strike_def approached_def lastBlow_def
  by (simp add: run_defs)

lemma fallenSprite_reached: "player (run fallTrace (startGame (1 / 2))) = fallenSprite"
  unfolding fallTrace_def run_append approached_reached
  unfolding run_repeat tick_def tock_def approached_def fallenSprite_def
  by (simp add: run_defs)

text \<open>The countdown alone, from the start: after sixty seconds the counter is 0, the match is
  stopped with one result written, "Tie", and no callback is left; two frames later there is
  still one result.\<close>

lemma countdown_result_once:
  "timer (run countdownTrace (startGame (1 / 2))) = 0
   \<and> \<not> gameRunning (run countdownTrace (startGame (1 / 2)))
   \<and> timeouts (run countdownTrace (startGame (1 / 2))) = []
   \<and> resultCount (run countdownTrace (startGame (1 / 2))) = 1
   \<and> resultCount (run (countdownTrace @ tick @ tick) (startGame (1 / 2))) = 1"
  unfolding countdownTrace_def run_append run_repeat startGame_value tick_def
  by (simp add: run_defs resultCount_def)

subsection \<open>The enemy's policy\<close>

text \<open>
  C8. One call of \<open>updateEnemyAI\<close>, with \<open>r\<close> the random number it would draw, as a function
  of the signed distance \<open>player.position.x - enemy.position.x\<close>. If the enemy is dead or the
  match is not running, only the enemy's horizontal velocity is set to 0. Otherwise: for a
  distance of absolute value between 60 and 400 (both excluded) the velocity is 2 and the
  direction 1 when the player is to the right, and -2 and -1 when it is to the left; for an
  absolute value of at most 60 the velocity is 0, the direction is 1 for a player to the right
  and -1 otherwise, and \<open>attack\<close> is called exactly when \<open>r < 0.02\<close>; for an absolute value of
  400 or more only the velocity is set to 0. Nothing else in the state changes.
\<close>

theorem updateEnemyAI_policy:
  "(isDead (enemy s) \<or> \<not> gameRunning s \<longrightarrow>
      updateEnemyAI r s = s\<lparr>enemy := (enemy s)\<lparr>velocity := (velocity (enemy s))\<lparr>vec_x := 0\<rparr>\<rparr>\<rparr>)
   \<and> (\<not> isDead (enemy s) \<and> gameRunning s
        \<and> 60 < \<bar>vec_x (position (player s)) - vec_x (position (enemy s))\<bar>
        \<and> \<bar>vec_x (position (player s)) - vec_x (position (enemy s))\<bar> < 400 \<longrightarrow>
      updateEnemyAI r s =
        s\<lparr>enemy := (enemy s)
            \<lparr>velocity := (velocity (enemy s))
               \<lparr>vec_x := (if vec_x (position (enemy s)) < vec_x (position (player s))
                           then 2 else - 2)\<rparr>,
             direction := (if vec_x (position (enemy s)) < vec_x (position (player s))
                           then 1 else - 1)\<rparr>\<rparr>)
   \<and> (\<not> isDead (enemy s) \<and> gameRunning s
        \<and> \<bar>vec_x (position (player s)) - vec_x (position (enemy s))\<bar> \<le> 60 \<longrightarrow>
      updateEnemyAI r s =
        (if r < 2 / 100 then attack Enemy else id)
          (s\<lparr>enemy := (enemy s)
              \<lparr>velocity := (velocity (enemy s))\<lparr>vec_x := 0\<rparr>,
               direction := (if vec_x (position (enemy s)) < vec_x (position (player s))
                             then 1 else - 1)\<rparr>\<rparr>))
   \<and> (\<not> isDead (enemy s) \<and> gameRunning s
        \<and> 400 \<le> \<bar>vec_x (position (player s)) - vec_x (position (enemy s))\<bar> \<longrightarrow>
      updateEnemyAI r s = s\<lparr>enemy := (enemy s)\<lparr>velocity := (velocity (enemy s))\<lparr>vec_x := 0\<rparr>\<rparr>\<rparr>)"
  by (simp add: updateEnemyAI_def Let_def)

theorem updateEnemyAI_policy_witness:
  "\<not> gameRunning (initialGame\<lparr>gameRunning := False\<rparr>)
   \<and> updateEnemyAI (1 / 100) (initialGame\<lparr>gameRunning := False\<rparr>)
       = initialGame\<lparr>gameRunning := False\<rparr>
   \<and> \<not> isDead (enemy chasing) \<and> gameRunning chasing
   \<and> vec_x (position (player chasing)) - vec_x (position (enemy chasing)) = 200
   \<and> vec_x (velocity (enemy (updateEnemyAI (1 / 100) chasing))) = 2
   \<and> direction (enemy (updateEnemyAI (1 / 100) chasing)) = 1
   \<and> \<not> isDead (enemy inReach) \<and> gameRunning inReach
   \<and> vec_x (position (player inReach)) - vec_x (position (enemy inReach)) = - 30
   \<and> vec_x (velocity (enemy (updateEnemyAI (1 / 100) inReach))) = 0
   \<and> direction (enemy (updateEnemyAI (1 / 100) inReach)) = - 1
   \<and> isAttacking (enemy (updateEnemyAI (1 / 100) inReach))
   \<and> timeouts (updateEnemyAI (1 / 100) inReach) = [(1, 100, ResetAttack Enemy)]
   \<and> \<not> isAttacking (enemy (updateEnemyAI (2 / 100) inReach))
   \<and> timeouts (updateEnemyAI (2 / 100) inReach) = []
   \<and> \<not> isDead (enemy initialGame) \<and> gameRunning initialGame
   \<and> vec_x (position (player initialGame)) - vec_x (position (enemy initialGame)) = - 700
   \<and> updateEnemyAI (1 / 100) initialGame = initialGame"
  using updateEnemyAI_policy[of "initialGame\<lparr>gameRunning := False\<rparr>" "1 / 100"]
    updateEnemyAI_policy[of chasing "1 / 100"]
    updateEnemyAI_policy[of inReach "1 / 100"]
    updateEnemyAI_policy[of inReach "2 / 100"]
    updateEnemyAI_policy[of initialGame "1 / 100"]
  by (simp add: chasing_def inReach_def initialGame_def newSprite_def attack_def setTimeout_def)

subsection \<open>While the match runs, both sprites are alive\<close>

lemma before_hits_healthInv:
  "healthInv (updateEnemyAI r (animate_movement (animate_update s))) = healthInv s"
  by (simp add: healthInv_def before_hits_keeps)

lemma determineWinner_healthInv: "healthInv s \<Longrightarrow> healthInv (determineWinner s)"
  by (simp add: healthInv_def determineWinner_effect)

lemma playerHits_healthInv:
  assumes "healthInv s"
  shows "(isDead (player (animate_playerHits s)) \<longleftrightarrow> health (player (animate_playerHits s)) \<le> 0)
     \<and> (isDead (enemy (animate_playerHits s)) \<longleftrightarrow> health (enemy (animate_playerHits s)) \<le> 0)"
  using assms
  by (auto simp add: healthInv_def animate_playerHits_def Let_def emit_def takeHit_def)

lemma enemyHits_healthInv:
  assumes "isDead (player s) \<longleftrightarrow> health (player s) \<le> 0"
    and "isDead (enemy s) \<longleftrightarrow> health (enemy s) \<le> 0"
  shows "(isDead (player (animate_enemyHits s)) \<longleftrightarrow> health (player (animate_enemyHits s)) \<le> 0)
     \<and> (isDead (enemy (animate_enemyHits s)) \<longleftrightarrow> health (enemy (animate_enemyHits s)) \<le> 0)"
  using assms
  by (auto simp add: animate_enemyHits_def Let_def emit_def takeHit_def)

lemma endCheck_healthInv:
  assumes "isDead (player s) \<longleftrightarrow> health (player s) \<le> 0"
    and "isDead (enemy s) \<longleftrightarrow> health (enemy s) \<le> 0"
  shows "healthInv (animate_endCheck s)"
  using assms
  by (auto simp add: animate_endCheck_def healthInv_def determineWinner_effect)

lemma animate_healthInv:
  assumes "healthInv s"
  shows "healthInv (animate r s)"
proof -
  let ?b = "updateEnemyAI r (animate_movement (animate_update s))"
  have b: "healthInv ?b" using assms by (simp add: before_hits_healthInv)
  note p = playerHits_healthInv[OF b]
  have e: "(isDead (player (animate_enemyHits (animate_playerHits ?b)))
             \<longleftrightarrow> health (player (animate_enemyHits (animate_playerHits ?b))) \<le> 0)
     \<and> (isDead (enemy (animate_enemyHits (animate_playerHits ?b)))
             \<longleftrightarrow> health (enemy (animate_enemyHits (animate_playerHits ?b))) \<le> 0)"
    using enemyHits_healthInv[of "animate_playerHits ?b"] p by blast
  show ?thesis
    unfolding animate_def using endCheck_healthInv e by blast
qed

lemma keydown_healthInv: "healthInv s \<Longrightarrow> healthInv (keydown k s)"
  by (simp add: healthInv_def keydown_def attack_keeps)

lemma keyup_healthInv: "healthInv s \<Longrightarrow> healthInv (keyup k s)"
  by (simp add: healthInv_def keyup_def)

lemma decreaseTimer_healthInv: "healthInv s \<Longrightarrow> healthInv (decreaseTimer s)"
  by (auto simp add: decreaseTimer_def Let_def setTimeout_def emit_def split_def
        intro!: determineWinner_healthInv) (simp_all add: healthInv_def)

lemma run_callback_healthInv:
  assumes "healthInv s"
  shows "healthInv (run_callback cb s)"
proof (cases cb)
  case (ResetAttack w)
  then show ?thesis using assms by (cases w) (simp_all add: healthInv_def)
next
  case DecreaseTimer
  then show ?thesis using assms by (simp add: decreaseTimer_healthInv)
qed

lemma step_healthInv:
  assumes "healthInv s"
  shows "healthInv (step ev s)"
proof (cases ev)
  case (Frame r)
  then show ?thesis using assms by (simp add: animate_healthInv)
next
  case (KeyDown k)
  then show ?thesis using assms by (simp add: keydown_healthInv)
next
  case (KeyUp k)
  then show ?thesis using assms by (simp add: keyup_healthInv)
next
  case (Wait d)
  then show ?thesis using assms by (simp add: healthInv_def)
next
  case Fire
  have "\<And>f. healthInv (s\<lparr>timeouts := f\<rparr>)" using assms by (simp add: healthInv_def)
  then show ?thesis using Fire assms
    by (auto simp add: run_callback_healthInv split: option.split)
qed

lemma run_healthInv: "healthInv s \<Longrightarrow> healthInv (run evs s)"
  by (induction evs arbitrary: s) (simp_all add: step_healthInv)

lemma initialGame_healthInv: "healthInv initialGame"
  by (simp add: healthInv_def initialGame_def newSprite_def)

lemma startGame_healthInv: "healthInv (startGame r)"
  unfolding startGame_def
  by (intro animate_healthInv decreaseTimer_healthInv initialGame_healthInv)

text \<open>In every state a game reaches from its start, by whatever frames, keys and timers, a
  running match has two live sprites: there, that neither sprite is dead follows from the
  match running.\<close>

lemma running_alive:
  assumes "gameRunning (run evs (startGame r0))"
  shows "\<not> isDead (player (run evs (startGame r0))) \<and> \<not> isDead (enemy (run evs (startGame r0)))"
  using assms run_healthInv[OF startGame_healthInv, of evs r0]
  by (auto simp add: healthInv_def)

lemma running_alive_before_hits:
  assumes "gameRunning (run evs (startGame r0))"
  shows "\<not> isDead (player (updateEnemyAI r (animate_movement (animate_update (run evs (startGame r0))))))
       \<and> \<not> isDead (enemy (updateEnemyAI r (animate_movement (animate_update (run evs (startGame r0))))))"
  using running_alive[OF assms] by (simp add: before_hits_keeps)

subsection \<open>Both sprites hit in one frame\<close>

lemma mutual_hit_frame:
  assumes "gameRunning s"
    and "isAttacking (player s)" and "isAttacking (enemy s)"
    and "rectangularCollision (player s) (enemy s)"
    and "rectangularCollision (enemy s) (player s)"
    and "\<not> isDead (player s)" and "\<not> isDead (enemy s)"
  shows "enemy (animate_enemyHits (animate_playerHits s))
           = (takeHit 10 (enemy s))\<lparr>isAttacking := False\<rparr>
       \<and> player (animate_enemyHits (animate_playerHits s))
           = takeHit 10 ((player s)\<lparr>isAttacking := False\<rparr>)
       \<and> outputs (animate_enemyHits (animate_playerHits s))
           = outputs s @ [HealthBarWidth Enemy (max 0 (health (enemy s) - 10)),
                          HealthBarWidth Player (max 0 (health (player s) - 10))]"
  using assms
  by (simp add: animate_enemyHits_def animate_playerHits_def Let_def emit_def
      rectangularCollision_def takeHit_def max_def)

text \<open>
  C4. Take any state \<open>s0\<close> a game reaches from its start, and let \<open>s\<close> be the state of the next
  frame when it comes to the collision checks, that is after both updates, the player's
  movement and the enemy AI. If the match is running, both sprites are attacking, and each
  attack box overlaps the other sprite's body, then the frame applies the hit of 10 to both:
  each health drops by 10 (to no less than 0), both attack flags are cleared, and both health
  bars are written, the enemy's first. The second check reads the state the first one leaves,
  and the first clears only the player's flag.
\<close>

theorem mutual_hit:
  assumes "s0 = run evs (startGame r0)"
    and "s = updateEnemyAI r (animate_movement (animate_update s0))"
    and "gameRunning s"
    and "isAttacking (player s)" and "isAttacking (enemy s)"
    and "rectangularCollision (player s) (enemy s)"
    and "rectangularCollision (enemy s) (player s)"
  shows "enemy (animate r s0) = (takeHit 10 (enemy s))\<lparr>isAttacking := False\<rparr>
       \<and> player (animate r s0) = takeHit 10 ((player s)\<lparr>isAttacking := False\<rparr>)
       \<and> health (enemy (animate r s0)) = max 0 (health (enemy s) - 10)
       \<and> health (player (animate r s0)) = max 0 (health (player s) - 10)
       \<and> outputs (animate_enemyHits (animate_playerHits s))
           = outputs s @ [HealthBarWidth Enemy (max 0 (health (enemy s) - 10)),
                          HealthBarWidth Player (max 0 (health (player s) - 10))]"
proof -
  have "gameRunning (run evs (startGame r0))"
    using assms(1,2,3) by (simp add: before_hits_keeps)
  then have alive: "\<not> isDead (player s) \<and> \<not> isDead (enemy s)"
    using running_alive_before_hits[of evs r0 r] assms(1,2) by simp
  have hits: "enemy (animate_enemyHits (animate_playerHits s))
           = (takeHit 10 (enemy s))\<lparr>isAttacking := False\<rparr>
       \<and> player (animate_enemyHits (animate_playerHits s))
           = takeHit 10 ((player s)\<lparr>isAttacking := False\<rparr>)
       \<and> outputs (animate_enemyHits (animate_playerHits s))
           = outputs s @ [HealthBarWidth Enemy (max 0 (health (enemy s) - 10)),
                          HealthBarWidth Player (max 0 (health (player s) - 10))]"
    using mutual_hit_frame[OF assms(3-7)] alive by blast
  have frame: "animate r s0 = animate_endCheck (animate_enemyHits (animate_playerHits s))"
    by (simp add: animate_def assms(2))
  have "health ((takeHit 10 (enemy s))\<lparr>isAttacking := False\<rparr>) = max 0 (health (enemy s) - 10)"
    and "health (takeHit 10 ((player s)\<lparr>isAttacking := False\<rparr>)) = max 0 (health (player s) - 10)"
    by (simp_all add: takeHit_def Let_def max_def)
  then show ?thesis
    using hits frame endCheck_sprites[of "animate_enemyHits (animate_playerHits s)"] by simp
qed

lemma lastBlow_before_hits:
  "updateEnemyAI (1 / 100) (animate_movement (animate_update lastBlow))
     = lastBlow\<lparr>enemy := (enemy lastBlow)\<lparr>isAttacking := True\<rparr>,
                timeouts := timeouts lastBlow @ [(13, 1988, ResetAttack Enemy)],
                nextTimeoutId := 14\<rparr>"
  by (simp add: lastBlow_def frame_defs)

theorem mutual_hit_witness:
  "lastBlow = run lastBlowTrace (startGame (1 / 2))
   \<and> gameRunning (updateEnemyAI (1 / 100) (animate_movement (animate_update lastBlow)))
   \<and> isAttacking (player (updateEnemyAI (1 / 100) (animate_movement (animate_update lastBlow))))
   \<and> isAttacking (enemy (updateEnemyAI (1 / 100) (animate_movement (animate_update lastBlow))))
   \<and> rectangularCollision
        (player (updateEnemyAI (1 / 100) (animate_movement (animate_update lastBlow))))
        (enemy (updateEnemyAI (1 / 100) (animate_movement (animate_update lastBlow))))
   \<and> rectangularCollision
        (enemy (updateEnemyAI (1 / 100) (animate_movement (animate_update lastBlow))))
        (player (updateEnemyAI (1 / 100) (animate_movement (animate_update lastBlow))))
   \<and> health (player lastBlow) = 100 \<and> health (enemy lastBlow) = 10
   \<and> health (player (animate (1 / 100) lastBlow)) = 90
   \<and> health (enemy (animate (1 / 100) lastBlow)) = 0
   \<and> isDead (enemy (animate (1 / 100) lastBlow))
   \<and> \<not> isAttacking (player (animate (1 / 100) lastBlow))
   \<and> \<not> isAttacking (enemy (animate (1 / 100) lastBlow))"
proof -
  let ?s = "updateEnemyAI (1 / 100) (animate_movement (animate_update lastBlow))"
  have reached: "lastBlow = run lastBlowTrace (startGame (1 / 2))"
    by (simp add: lastBlow_reached)
  have pre: "gameRunning ?s \<and> isAttacking (player ?s) \<and> isAttacking (enemy ?s)
      \<and> rectangularCollision (player ?s) (enemy ?s)
      \<and> rectangularCollision (enemy ?s) (player ?s)
      \<and> health (player ?s) = 100 \<and> health (enemy ?s) = 10"
    unfolding lastBlow_before_hits
    by (simp add: lastBlow_def rectangularCollision_def)
  have "enemy (animate (1 / 100) lastBlow) = (takeHit 10 (enemy ?s))\<lparr>isAttacking := False\<rparr>
      \<and> player (animate (1 / 100) lastBlow) = takeHit 10 ((player ?s)\<lparr>isAttacking := False\<rparr>)"
    using mutual_hit[OF reached, of ?s "1 / 100"] pre by simp
  then have "health (player (animate (1 / 100) lastBlow)) = 90
      \<and> health (enemy (animate (1 / 100) lastBlow)) = 0
      \<and> isDead (enemy (animate (1 / 100) lastBlow))
      \<and> \<not> isAttacking (player (animate (1 / 100) lastBlow))
      \<and> \<not> isAttacking (enemy (animate (1 / 100) lastBlow))"
    using pre by (simp add: takeHit_def Let_def)
  moreover have "health (player lastBlow) = 100 \<and> health (enemy lastBlow) = 10"
    by (simp add: lastBlow_def)
  ultimately show ?thesis using pre reached by blast
qed

subsection \<open>The result banner\<close>

text \<open>The banner is written for the first time in the step that stops the match: in every
  state a game reaches, the match is running exactly when no result has been written.\<close>

lemma before_hits_resultCount:
  "resultCount (updateEnemyAI r (animate_movement (animate_update s))) = resultCount s"
  by (simp add: resultCount_def before_hits_keeps)

lemma hits_gameRunning:
  "gameRunning (animate_enemyHits (animate_playerHits s)) = gameRunning s"
  by (simp add: animate_enemyHits_def animate_playerHits_def Let_def emit_def)

lemma animate_running_iff:
  assumes "gameRunning s \<longleftrightarrow> resultCount s = 0"
  shows "gameRunning (animate r s) \<longleftrightarrow> resultCount (animate r s) = 0"
proof -
  let ?h = "animate_enemyHits (animate_playerHits
              (updateEnemyAI r (animate_movement (animate_update s))))"
  have "gameRunning ?h = gameRunning s"
    by (simp add: hits_gameRunning before_hits_keeps)
  moreover have "resultCount ?h = resultCount s"
    by (simp add: enemyHits_resultCount playerHits_resultCount before_hits_resultCount)
  ultimately show ?thesis
    using assms
    by (simp add: animate_def animate_endCheck_def determineWinner_resultCount
        determineWinner_effect)
qed

lemma decreaseTimer_running_iff:
  assumes "gameRunning s \<longleftrightarrow> resultCount s = 0"
  shows "gameRunning (decreaseTimer s) \<longleftrightarrow> resultCount (decreaseTimer s) = 0"
  using assms
  by (simp add: decreaseTimer_def Let_def setTimeout_def emit_def split_def
      determineWinner_resultCount determineWinner_effect)
    (simp add: resultCount_def)

lemma step_running_iff:
  assumes "gameRunning s \<longleftrightarrow> resultCount s = 0"
  shows "gameRunning (step ev s) \<longleftrightarrow> resultCount (step ev s) = 0"
proof (cases ev)
  case (Frame r)
  then show ?thesis using assms by (simp add: animate_running_iff)
next
  case (KeyDown k)
  then show ?thesis using assms by (simp add: keydown_def attack_keeps resultCount_def)
next
  case (KeyUp k)
  then show ?thesis using assms by (simp add: keyup_def resultCount_def)
next
  case (Wait d)
  then show ?thesis using assms by (simp add: resultCount_def)
next
  case Fire
  have cb: "gameRunning (run_callback c (s\<lparr>timeouts := f\<rparr>))
            \<longleftrightarrow> resultCount (run_callback c (s\<lparr>timeouts := f\<rparr>)) = 0" for c f
  proof (cases c)
    case (ResetAttack w)
    then show ?thesis using assms by (cases w) (simp_all add: resultCount_def)
  next
    case DecreaseTimer
    have "gameRunning (s\<lparr>timeouts := f\<rparr>) \<longleftrightarrow> resultCount (s\<lparr>timeouts := f\<rparr>) = 0"
      using assms by (simp add: resultCount_def)
    then show ?thesis using DecreaseTimer by (simp add: decreaseTimer_running_iff)
  qed
  show ?thesis using Fire assms cb by (auto split: option.split)
qed

lemma run_running_iff:
  "(gameRunning s \<longleftrightarrow> resultCount s = 0)
   \<Longrightarrow> (gameRunning (run evs s) \<longleftrightarrow> resultCount (run evs s) = 0)"
  by (induction evs arbitrary: s) (simp_all add: step_running_iff)

lemma result_written_when_stopped:
  "gameRunning (run evs (startGame r0)) \<longleftrightarrow> resultCount (run evs (startGame r0)) = 0"
proof -
  have "gameRunning initialGame \<longleftrightarrow> resultCount initialGame = 0"
    by (simp add: initialGame_def resultCount_def)
  then have "gameRunning (startGame r0) \<longleftrightarrow> resultCount (startGame r0) = 0"
    unfolding startGame_def by (intro animate_running_iff decreaseTimer_running_iff)
  then show ?thesis by (rule run_running_iff)
qed

text \<open>A match that the countdown has stopped, both sprites with health left, gets no further
  result from its frames.\<close>

lemma animate_after_timeout_silent:
  assumes "\<not> gameRunning s" and "0 < health (player s)" and "0 < health (enemy s)"
  shows "resultCount (animate r s) = resultCount s
       \<and> \<not> gameRunning (animate r s)
       \<and> health (player (animate r s)) = health (player s)
       \<and> health (enemy (animate r s)) = health (enemy s)"
proof -
  let ?b = "updateEnemyAI r (animate_movement (animate_update s))"
  have stopped: "\<not> gameRunning ?b" using assms(1) by (simp add: before_hits_keeps)
  then have "animate_enemyHits (animate_playerHits ?b) = ?b"
    by (simp add: animate_enemyHits_def animate_playerHits_def)
  then have "animate r s = animate_endCheck ?b"
    by (simp add: animate_def)
  moreover have "animate_endCheck ?b = ?b"
    using assms(2,3) by (simp add: animate_endCheck_def before_hits_keeps)
  ultimately show ?thesis
    using stopped assms by (simp add: before_hits_keeps before_hits_resultCount)
qed

text \<open>A match in which a sprite's health is used up gets one more result from every
  frame.\<close>

lemma hits_health_nonpos:
  "health (enemy s) \<le> 0 \<or> health (player s) \<le> 0 \<Longrightarrow>
   health (enemy (animate_enemyHits (animate_playerHits s))) \<le> 0
   \<or> health (player (animate_enemyHits (animate_playerHits s))) \<le> 0"
  by (auto simp add: animate_enemyHits_def animate_playerHits_def Let_def emit_def takeHit_def)

lemma animate_knocked_out_publishes:
  assumes "health (enemy s) \<le> 0 \<or> health (player s) \<le> 0"
  shows "resultCount (animate r s) = Suc (resultCount s)
       \<and> (health (enemy (animate r s)) \<le> 0 \<or> health (player (animate r s)) \<le> 0)"
proof -
  let ?b = "updateEnemyAI r (animate_movement (animate_update s))"
  let ?h = "animate_enemyHits (animate_playerHits ?b)"
  have b: "health (enemy ?b) \<le> 0 \<or> health (player ?b) \<le> 0"
    using assms by (simp add: before_hits_keeps)
  have h: "health (enemy ?h) \<le> 0 \<or> health (player ?h) \<le> 0"
    by (rule hits_health_nonpos[OF b])
  have c: "resultCount ?h = resultCount s"
    by (simp add: enemyHits_resultCount playerHits_resultCount before_hits_resultCount)
  have "animate r s = determineWinner ?h"
    using h by (simp add: animate_def animate_endCheck_def)
  then show ?thesis
    using h c by (simp add: determineWinner_resultCount determineWinner_effect)
qed

text \<open>
  C1 fails on the code. The input \<open>lastBlowTrace\<close> leaves the match running with no result
  written. In the next frame the player's tenth attack lands and uses up the enemy's health:
  that frame stops the match and writes "Player 1 Wins", the first result. Each of the two
  frames after it runs the end-of-game check again, calls \<open>determineWinner\<close> again and writes
  the result once more.
\<close>

theorem knockout_result_republished:
  "gameRunning (run lastBlowTrace (startGame (1 / 2)))
   \<and> resultCount (run lastBlowTrace (startGame (1 / 2))) = 0
   \<and> \<not> gameRunning (run (lastBlowTrace @ [Frame (1 / 2)]) (startGame (1 / 2)))
   \<and> health (enemy (run (lastBlowTrace @ [Frame (1 / 2)]) (startGame (1 / 2)))) = 0
   \<and> resultCount (run (lastBlowTrace @ [Frame (1 / 2)]) (startGame (1 / 2))) = 1
   \<and> resultCount (run (lastBlowTrace @ [Frame (1 / 2)] @ tick) (startGame (1 / 2))) = 2
   \<and> resultCount (run (lastBlowTrace @ [Frame (1 / 2)] @ tick @ tick) (startGame (1 / 2))) = 3
   \<and> outputs (run (lastBlowTrace @ [Frame (1 / 2)] @ tick @ tick) (startGame (1 / 2)))
       = outputs lastBlow
           @ [HealthBarWidth Enemy 0, ResultDisplayFlex, ResultText ''Player 1 Wins'',
              ResultDisplayFlex, ResultText ''Player 1 Wins'',
              ResultDisplayFlex, ResultText ''Player 1 Wins'']"
proof -
  have d: "gameRunning lastBlow \<and> resultCount lastBlow = 0"
    by (simp add: lastBlow_def resultCount_def)
  have a: "health (enemy (animate (1 / 2) lastBlow)) = 0
      \<and> \<not> gameRunning (animate (1 / 2) lastBlow)
      \<and> outputs (animate (1 / 2) lastBlow)
          = outputs lastBlow
              @ [HealthBarWidth Enemy 0, ResultDisplayFlex, ResultText ''Player 1 Wins'']"
    by (simp add: lastBlow_def frame_defs)
  then have a1: "resultCount (animate (1 / 2) lastBlow) = 1"
    using d by (simp add: resultCount_def)
  have b: "outputs (run tick (animate (1 / 2) lastBlow))
      = outputs lastBlow
          @ [HealthBarWidth Enemy 0, ResultDisplayFlex, ResultText ''Player 1 Wins'',
             ResultDisplayFlex, ResultText ''Player 1 Wins'']"
    unfolding tick_def by (simp add: lastBlow_def frame_defs)
  then have b1: "resultCount (run tick (animate (1 / 2) lastBlow)) = 2"
    using d by (simp add: resultCount_def)
  have c: "outputs (run tick (run tick (animate (1 / 2) lastBlow)))
      = outputs lastBlow
          @ [HealthBarWidth Enemy 0, ResultDisplayFlex, ResultText ''Player 1 Wins'',
             ResultDisplayFlex, ResultText ''Player 1 Wins'',
             ResultDisplayFlex, ResultText ''Player 1 Wins'']"
    unfolding tick_def by (simp add: lastBlow_def frame_defs)
  then have c1: "resultCount (run tick (run tick (animate (1 / 2) lastBlow))) = 3"
    using d by (simp add: resultCount_def)
  show ?thesis
    using a a1 b1 c c1 d by (simp add: run_append lastBlow_reached)
qed

subsection \<open>The attack window\<close>





































end
